theory Spec2Isabelle
  imports Complex_Main "HOL-Library.Log_Nat"
begin

section \<open>JavaScript numbers\<close>

text \<open>
  The engine computes payouts with JavaScript numbers, which are IEEE-754 binary64
  values. A finite number is modelled by the rational it denotes, and every arithmetic
  operation of the source is the exact operation followed by \<open>fl\<close>, rounding to the
  nearest value with a 53-bit significand, ties to even. The exponent is not bounded:
  all columns are MySQL \<open>int\<close>, so no intermediate result of the engine leaves the
  normal range of binary64.
\<close>

definition pow2 :: "int \<Rightarrow> rat" where
  "pow2 e = (if 0 \<le> e then 2 ^ nat e else 1 / 2 ^ nat (- e))"

text \<open>The binade of a non-zero \<open>x\<close>: the \<open>e\<close> with \<open>2^e \<le> |x| < 2^(e+1)\<close>.\<close>

definition binade :: "rat \<Rightarrow> int" where
  "binade x = (case quotient_of \<bar>x\<bar> of (p, q) \<Rightarrow>
     (let k = bitlen p - bitlen q in if pow2 k \<le> \<bar>x\<bar> then k else k - 1))"

definition roundTiesToEven :: "rat \<Rightarrow> int" where
  "roundTiesToEven x = (let f = \<lfloor>x\<rfloor>; d = x - of_int f in
     if d < 1 / 2 then f else if 1 / 2 < d then f + 1 else if even f then f else f + 1)"

definition fl :: "rat \<Rightarrow> rat" where
  "fl x = (if x = 0 then 0 else
     (let u = pow2 (binade x - 52) in of_int (roundTiesToEven (x / u)) * u))"

text \<open>\<open>Math.round\<close>: the nearest integer, a tie going towards plus infinity.\<close>

definition Math_round :: "rat \<Rightarrow> int" where
  "Math_round x = \<lfloor>x + 1 / 2\<rfloor>"

definition Math_floor :: "rat \<Rightarrow> int" where
  "Math_floor x = \<lfloor>x\<rfloor>"

section \<open>The schema (drizzle/schema)\<close>

datatype tier = Low | Medium | High

datatype game_status = Filling | Full | Spinning | Completed

datatype owner_type = OwnerPlayer | OwnerBot

datatype winner_type = Player | Bot | House

text \<open>
  A \<open>Date\<close> is modelled by the local-time fields the source reads from it; \<open>timeOfDay\<close>
  is the rest of the instant (milliseconds since local midnight). Two dates have the
  same \<open>getTime()\<close> exactly when they are the same record.
\<close>

record date =
  getFullYear :: int
  getMonth :: int
  getDate :: int
  timeOfDay :: int

text \<open>\<open>new Date(year, month, day)\<close>: local midnight of that day.\<close>

definition newDate :: "int \<Rightarrow> int \<Rightarrow> int \<Rightarrow> date" where
  "newDate y m d = \<lparr>getFullYear = y, getMonth = m, getDate = d, timeOfDay = 0\<rparr>"

text \<open>
  Rows of the three tables. The columns the database fills in by itself and that no
  code of the engine reads (the row ids of \<open>gameSlots\<close> and \<open>userPoints\<close>,
  \<open>createdAt\<close>, \<open>updatedAt\<close>) are left out. A nullable column is an \<open>option\<close>.
\<close>

record gameRow =
  game_id :: int
  tier :: tier
  slotCount :: int
  entryCost :: int
  edgePct :: int
  winningSlot :: "int option"
  winnerType :: "winner_type option"
  winnerId :: "string option"
  payout :: "int option"
  houseCommission :: "int option"
  status :: game_status
  completedAt :: "date option"

record gameSlotRow =
  gameId :: int
  slotNumber :: int
  ownerType :: owner_type
  ownerId :: string
  slotEntryCost :: int

record userPointsRow =
  userId :: int
  balance :: int
  totalEarned :: int
  totalWagered :: int
  lastDailyReward :: "date option"

text \<open>
  The database: each table is the list of its rows in insertion order, and
  \<open>gamesAutoInc\<close> is the auto-increment counter of \<open>games.id\<close>.
\<close>

record db =
  games :: "gameRow list"
  gameSlots :: "gameSlotRow list"
  userPoints :: "userPointsRow list"
  gamesAutoInc :: int

section \<open>The ledger (gameDb.ts)\<close>

text \<open>\<open>db.select().from(userPoints).where(eq(userPoints.userId, userId)).limit(1)\<close>\<close>

definition selectUserPoints :: "db \<Rightarrow> int \<Rightarrow> userPointsRow option" where
  "selectUserPoints d uid = find (\<lambda>p. userId p = uid) (userPoints d)"

definition newUserPoints :: "int \<Rightarrow> userPointsRow" where
  "newUserPoints uid = \<lparr>userId = uid, balance = 30000, totalEarned = 30000,
     totalWagered = 0, lastDailyReward = None\<rparr>"

text \<open>
  \<open>getOrCreateUserPoints\<close> returns the row and the database after the call. After the
  insert the source selects the row again; that select finds the row just inserted
  (lemma \<open>selectUserPoints_after_insert\<close>), which is what the model returns.
\<close>

definition getOrCreateUserPoints :: "db \<Rightarrow> int \<Rightarrow> userPointsRow \<times> db" where
  "getOrCreateUserPoints d uid =
     (case selectUserPoints d uid of
        Some existing \<Rightarrow> (existing, d)
      | None \<Rightarrow>
          (newUserPoints uid, d\<lparr>userPoints := userPoints d @ [newUserPoints uid]\<rparr>))"

definition getUserPoints :: "db \<Rightarrow> int \<Rightarrow> userPointsRow \<times> db" where
  "getUserPoints d uid = getOrCreateUserPoints d uid"

text \<open>\<open>db.update(userPoints).set(...).where(eq(userPoints.userId, userId))\<close>\<close>

definition updateUserPoints :: "db \<Rightarrow> int \<Rightarrow> (userPointsRow \<Rightarrow> userPointsRow) \<Rightarrow> db" where
  "updateUserPoints d uid f =
     d\<lparr>userPoints := map (\<lambda>p. if userId p = uid then f p else p) (userPoints d)\<rparr>"

definition updateUserBalance :: "db \<Rightarrow> int \<Rightarrow> int \<Rightarrow> int \<times> db" where
  "updateUserBalance d uid amount =
     (case getOrCreateUserPoints d uid of (current, d1) \<Rightarrow>
        (let newBalance = balance current + amount in
         (newBalance,
          updateUserPoints d1 uid (\<lambda>p. p\<lparr>
            balance := newBalance,
            totalEarned := (if amount > 0 then totalEarned current + amount
                            else totalEarned current),
            totalWagered := (if amount < 0 then totalWagered current + \<bar>amount\<bar>
                             else totalWagered current)\<rparr>))))"

text \<open>
  \<open>applyDailyReward\<close>; \<open>now\<close> is the value of \<open>new Date()\<close> at the call. The source
  compares the local midnights of \<open>now\<close> and of the last reward.
\<close>

definition applyDailyReward :: "db \<Rightarrow> int \<Rightarrow> date \<Rightarrow> bool \<times> db" where
  "applyDailyReward d uid now =
     (case getOrCreateUserPoints d uid of (points, d1) \<Rightarrow>
        (if (case lastDailyReward points of
               None \<Rightarrow> False
             | Some lastReward \<Rightarrow>
                 (let today = newDate (getFullYear now) (getMonth now) (getDate now);
                      lastRewardDate = newDate (getFullYear lastReward) (getMonth lastReward)
                                         (getDate lastReward)
                  in today = lastRewardDate))
         then (False, d1)
         else (let newBalance = balance points + 50000 in
               (True,
                updateUserPoints d1 uid (\<lambda>p. p\<lparr>
                  balance := newBalance,
                  totalEarned := totalEarned points + 50000,
                  lastDailyReward := Some now\<rparr>)))))"

text \<open>
  The router's \<open>claimDailyReward\<close> mutation for the signed-in user: the \<open>success\<close>
  flag and, on success, \<open>newBalance\<close>.
\<close>

definition claimDailyReward :: "db \<Rightarrow> int \<Rightarrow> date \<Rightarrow> (bool \<times> int option) \<times> db" where
  "claimDailyReward d uid now =
     (case applyDailyReward d uid now of (success, d1) \<Rightarrow>
        (if success
         then (case getUserPoints d1 uid of (points, d2) \<Rightarrow> ((True, Some (balance points)), d2))
         else ((False, None), d1)))"

text \<open>Two dates on the same local calendar day.\<close>

definition sameDay :: "date \<Rightarrow> date \<Rightarrow> bool" where
  "sameDay a b \<longleftrightarrow>
     getFullYear a = getFullYear b \<and> getMonth a = getMonth b \<and> getDate a = getDate b"

section \<open>Strings and \<open>parseInt\<close>\<close>

text \<open>
  A string is the list of its code units; only code units below 256 occur in the
  model. \<open>parseInt\<close> with no radix: leading white space is skipped, then an optional
  sign, then an optional \<open>0x\<close> or \<open>0X\<close> (which selects radix 16), then the longest
  run of digits of the radix. No digit gives \<open>NaN\<close>, modelled by \<open>None\<close>; otherwise
  the result is the number nearest to the integer read.
\<close>

definition isWhiteSpace :: "char \<Rightarrow> bool" where
  "isWhiteSpace c \<longleftrightarrow> (of_char c :: int) \<in> {9, 10, 11, 12, 13, 32, 160}"

definition digitValue :: "char \<Rightarrow> int option" where
  "digitValue c =
     (let n = (of_char c :: int) in
      if 48 \<le> n \<and> n \<le> 57 then Some (n - 48)
      else if 97 \<le> n \<and> n \<le> 122 then Some (n - 87)
      else if 65 \<le> n \<and> n \<le> 90 then Some (n - 55)
      else None)"

definition isDigitOf :: "int \<Rightarrow> char \<Rightarrow> bool" where
  "isDigitOf R c = (case digitValue c of None \<Rightarrow> False | Some v \<Rightarrow> v < R)"

definition digitsValue :: "int \<Rightarrow> string \<Rightarrow> int" where
  "digitsValue R Z =
     foldl (\<lambda>acc c. acc * R + (case digitValue c of None \<Rightarrow> 0 | Some v \<Rightarrow> v)) 0 Z"

definition parseInt :: "string \<Rightarrow> int option" where
  "parseInt inputString =
     (let S = dropWhile isWhiteSpace inputString;
          sign = (case S of c # _ \<Rightarrow> if c = CHR ''-'' then - 1 else 1 | [] \<Rightarrow> (1 :: int));
          S1 = (case S of c # r \<Rightarrow> if c = CHR ''-'' \<or> c = CHR ''+'' then r else S | [] \<Rightarrow> S);
          hex = (case S1 of c0 # c1 # _ \<Rightarrow> c0 = CHR ''0'' \<and> (c1 = CHR ''x'' \<or> c1 = CHR ''X'')
                 | _ \<Rightarrow> False);
          R = (if hex then 16 else 10);
          S2 = (if hex then drop 2 S1 else S1);
          Z = takeWhile (isDigitOf R) S2
      in if Z = [] then None
         else Some (sign * \<lfloor>fl (of_int (digitsValue R Z))\<rfloor>))"

text \<open>\<open>Number.prototype.toString\<close> of an integer, in decimal.\<close>

fun natToString :: "nat \<Rightarrow> string" where
  "natToString n =
     (if n < 10 then [char_of (48 + n)]
      else natToString (n div 10) @ [char_of (48 + n mod 10)])"

definition toString :: "int \<Rightarrow> string" where
  "toString i = (if i < 0 then CHR ''-'' # natToString (nat (- i)) else natToString (nat i))"

section \<open>The game engine (gameEngine)\<close>

definition BOT_NAMES :: "string list" where
  "BOT_NAMES = [''T'', ''B'', ''J'', ''P'', ''K'', ''M'', ''S'', ''L'', ''R'', ''N'', ''C'', ''D'']"

record gameConfig =
  cfgTier :: tier
  cfgSlotCount :: int
  cfgEntryCost :: int
  cfgEdgePct :: int
  fillTimeMs :: int

fun GAME_CONFIGS :: "tier \<Rightarrow> gameConfig" where
  "GAME_CONFIGS Low = \<lparr>cfgTier = Low, cfgSlotCount = 12, cfgEntryCost = 5, cfgEdgePct = - 2,
     fillTimeMs = 30000\<rparr>"
| "GAME_CONFIGS Medium = \<lparr>cfgTier = Medium, cfgSlotCount = 10, cfgEntryCost = 11,
     cfgEdgePct = - 8, fillTimeMs = 30000\<rparr>"
| "GAME_CONFIGS High = \<lparr>cfgTier = High, cfgSlotCount = 6, cfgEntryCost = 25, cfgEdgePct = - 20,
     fillTimeMs = 15000\<rparr>"

text \<open>\<open>createGame\<close>: the new row gets the next auto-increment id, which is returned.\<close>

definition createGame :: "db \<Rightarrow> tier \<Rightarrow> int \<times> db" where
  "createGame d t =
     (let config = GAME_CONFIGS t; insertId = gamesAutoInc d in
      (insertId,
       d\<lparr>games := games d @
            [\<lparr>game_id = insertId, tier = cfgTier config, slotCount = cfgSlotCount config,
              entryCost = cfgEntryCost config, edgePct = cfgEdgePct config,
              winningSlot = None, winnerType = None, winnerId = None, payout = None,
              houseCommission = None, status = Filling, completedAt = None\<rparr>],
         gamesAutoInc := insertId + 1\<rparr>))"

record gameState =
  game :: gameRow
  slots :: "gameSlotRow list"
  filledCount :: int
  emptyCount :: int

definition getGameState :: "db \<Rightarrow> int \<Rightarrow> gameState option" where
  "getGameState d gid =
     (case find (\<lambda>g. game_id g = gid) (games d) of
        None \<Rightarrow> None
      | Some g \<Rightarrow>
          (let ss = filter (\<lambda>s. gameId s = gid) (gameSlots d) in
           Some \<lparr>game = g, slots = ss, filledCount = int (length ss),
                 emptyCount = slotCount g - int (length ss)\<rparr>))"

text \<open>
  The loop of \<open>addBotEntry\<close> over \<open>i = 1 .. slotCount\<close>: the first \<open>i\<close> that is not
  occupied, or \<open>None\<close> for \<open>emptySlot = null\<close>.
\<close>

function findEmptySlot :: "int set \<Rightarrow> int \<Rightarrow> int \<Rightarrow> int option" where
  "findEmptySlot occupiedSlots i n =
     (if i \<le> n
      then (if i \<notin> occupiedSlots then Some i else findEmptySlot occupiedSlots (i + 1) n)
      else None)"
  by pat_completeness auto
termination
  by (relation "measure (\<lambda>(occ, i, n). nat (n + 1 - i))") auto

text \<open>
  \<open>BOT_NAMES[Math.floor(Math.random() * BOT_NAMES.length)]\<close>, where \<open>rnd\<close> is the value of
  \<open>Math.random()\<close>, a number with \<open>0 \<le> rnd < 1\<close>. The last branch is the read past
  the array, which no value of \<open>Math.random()\<close> reaches.
\<close>

definition pickBotName :: "rat \<Rightarrow> string" where
  "pickBotName rnd =
     (let i = Math_floor (fl (rnd * of_nat (length BOT_NAMES))) in
      if 0 \<le> i \<and> i < int (length BOT_NAMES) then BOT_NAMES ! nat i else ''undefined'')"

text \<open>
  \<open>addBotEntry\<close> returns its boolean and the database after the call. \<open>emptySlot\<close> is
  at least 1 when the loop finds one, so \<open>!emptySlot\<close> is the case \<open>null\<close>.
\<close>

definition addBotEntry :: "db \<Rightarrow> int \<Rightarrow> rat \<Rightarrow> bool \<times> db" where
  "addBotEntry d gid rnd =
     (case getGameState d gid of
        None \<Rightarrow> (False, d)
      | Some state \<Rightarrow>
          (if status (game state) \<noteq> Filling then (False, d)
           else if filledCount state \<ge> slotCount (game state) then (False, d)
           else (let occupiedSlots = set (map slotNumber (slots state)) in
                 case findEmptySlot occupiedSlots 1 (slotCount (game state)) of
                   None \<Rightarrow> (False, d)
                 | Some emptySlot \<Rightarrow>
                     (let botName = pickBotName rnd in
                      (True,
                       d\<lparr>gameSlots := gameSlots d @
                            [\<lparr>gameId = gid, slotNumber = emptySlot, ownerType = OwnerBot,
                              ownerId = botName,
                              slotEntryCost = entryCost (game state)\<rparr>]\<rparr>)))))"

text \<open>\<open>db.update(games).set(...).where(eq(games.id, gameId))\<close>\<close>

definition updateGame :: "db \<Rightarrow> int \<Rightarrow> (gameRow \<Rightarrow> gameRow) \<Rightarrow> db" where
  "updateGame d gid f = d\<lparr>games := map (\<lambda>g. if game_id g = gid then f g else g) (games d)\<rparr>"

text \<open>\<open>winnerSlot.ownerType as "player" | "bot"\<close>\<close>

fun asWinnerType :: "owner_type \<Rightarrow> winner_type" where
  "asWinnerType OwnerPlayer = Player"
| "asWinnerType OwnerBot = Bot"

text \<open>
  The payout of \<open>spinGame\<close> for \<open>playerSlots > 0\<close> player slots, as the source computes
  it from \<open>state.game.slotCount\<close>, \<open>state.slots.length\<close>, \<open>state.game.entryCost\<close> and
  \<open>state.game.edgePct\<close>. These are integers of the database, which are numbers as they
  are. For \<open>slotCount = 0\<close> the source divides by zero: \<open>playerWinChance\<close> is
  \<open>Infinity\<close>, the pot divided by it is zero, and so is the payout. The result of
  \<open>Math.round(...) * 5\<close> is an integral number; the payout is that integer.
\<close>

definition computePayout :: "int \<Rightarrow> int \<Rightarrow> int \<Rightarrow> int \<Rightarrow> int \<Rightarrow> int" where
  "computePayout playerSlots gSlotCount slotsLength gEntryCost gEdgePct =
     (if gSlotCount = 0 then 0
      else
        (let playerWinChance = fl (of_int playerSlots / of_int gSlotCount);
             totalPot = fl (of_int slotsLength * of_int gEntryCost);
             rawPayout = fl (fl (totalPot / playerWinChance)
                             * fl (1 + fl (of_int gEdgePct / 100)))
         in \<lfloor>fl (of_int (Math_round (fl (rawPayout / 5))) * 5)\<rfloor>))"

text \<open>
  The house commission, \<open>Math.round(totalPot * 0.1)\<close> with
  \<open>totalPot = state.slots.length * state.game.entryCost\<close>; the literal \<open>0.1\<close> is the
  number nearest to 1/10.
\<close>

definition computeHouseCommission :: "int \<Rightarrow> int \<Rightarrow> int" where
  "computeHouseCommission slotsLength gEntryCost =
     (let totalPot = fl (of_int slotsLength * of_int gEntryCost)
      in Math_round (fl (totalPot * fl (1 / 10))))"

text \<open>
  The commission in the spec's words, "10% of totalPot, rounded to nearest integer", in
  exact arithmetic, a half going up as in the spec's example \<open>round(150*0.1) = 15\<close>.
  It is compared with what the source computes in lemma \<open>computeHouseCommission_spec\<close>.
\<close>

definition specHouseCommission :: "int \<Rightarrow> int" where
  "specHouseCommission totalPot = \<lfloor>(of_int totalPot :: rat) / 10 + 1 / 2\<rfloor>"

text \<open>\<open>Math.floor(Math.random() * state.game.slotCount) + 1\<close> for the value \<open>rnd\<close> of \<open>Math.random()\<close>.\<close>

definition drawWinningSlot :: "rat \<Rightarrow> int \<Rightarrow> int" where
  "drawWinningSlot rnd gSlotCount = Math_floor (fl (rnd * of_int gSlotCount)) + 1"

text \<open>The values \<open>spinGame\<close> computes between its two updates of the game.\<close>

record settlement =
  sWinningSlot :: int
  sWinnerType :: winner_type
  sWinnerId :: string
  sPayout :: int
  sHouseCommission :: int

definition settle :: "gameState \<Rightarrow> rat \<Rightarrow> settlement" where
  "settle state rnd =
     (let winningSlot = drawWinningSlot rnd (slotCount (game state));
          winnerSlot = find (\<lambda>s. slotNumber s = winningSlot) (slots state);
          playerSlots = int (length (filter (\<lambda>s. ownerType s = OwnerPlayer) (slots state)))
      in \<lparr>sWinningSlot = winningSlot,
          sWinnerType = (case winnerSlot of None \<Rightarrow> House
                         | Some ws \<Rightarrow> asWinnerType (ownerType ws)),
          sWinnerId = (case winnerSlot of None \<Rightarrow> ''house'' | Some ws \<Rightarrow> ownerId ws),
          sPayout = (case winnerSlot of None \<Rightarrow> 0
                     | Some ws \<Rightarrow>
                         if playerSlots > 0 \<and> asWinnerType (ownerType ws) = Player
                         then computePayout playerSlots (slotCount (game state))
                                (int (length (slots state))) (entryCost (game state))
                                (edgePct (game state))
                         else 0),
          sHouseCommission = computeHouseCommission (int (length (slots state)))
                               (entryCost (game state))\<rparr>)"

text \<open>
  \<open>spinGame\<close>; \<open>rnd\<close> is the value of \<open>Math.random()\<close> and \<open>now\<close> the value of
  \<open>new Date()\<close>. It returns its boolean and the database after the call. The event
  emitted at the end does not touch the database and is not modelled.
\<close>

definition spinGame :: "db \<Rightarrow> int \<Rightarrow> rat \<Rightarrow> date \<Rightarrow> bool \<times> db" where
  "spinGame d gid rnd now =
     (case getGameState d gid of
        None \<Rightarrow> (False, d)
      | Some state \<Rightarrow>
          (let d1 = updateGame d gid (\<lambda>g. g\<lparr>status := Spinning\<rparr>);
               r = settle state rnd;
               d2 = updateGame d1 gid (\<lambda>g. g\<lparr>
                      winningSlot := Some (sWinningSlot r),
                      winnerType := Some (sWinnerType r),
                      winnerId := Some (sWinnerId r),
                      payout := Some (if sWinnerType r = Player then sPayout r else 0),
                      houseCommission := Some (sHouseCommission r),
                      status := Completed,
                      completedAt := Some now\<rparr>);
               d3 = (if sWinnerType r = Player
                     then (case parseInt (sWinnerId r) of
                             Some userId_num \<Rightarrow> snd (updateUserBalance d2 userId_num (sPayout r))
                           | None \<Rightarrow> d2)
                     else d2)
           in (True, d3)))"

definition checkAndSpinIfFull :: "db \<Rightarrow> int \<Rightarrow> rat \<Rightarrow> date \<Rightarrow> bool \<times> db" where
  "checkAndSpinIfFull d gid rnd now =
     (case getGameState d gid of
        None \<Rightarrow> (False, d)
      | Some state \<Rightarrow>
          (if filledCount state < slotCount (game state) then (False, d)
           else spinGame d gid rnd now))"

definition isActive :: "tier \<Rightarrow> gameRow \<Rightarrow> bool" where
  "isActive t g \<longleftrightarrow> tier g = t \<and> (status g = Filling \<or> status g = Full)"

definition getOrCreateActiveGame :: "db \<Rightarrow> tier \<Rightarrow> int \<times> db" where
  "getOrCreateActiveGame d t =
     (case find (isActive t) (games d) of
        Some g \<Rightarrow> (game_id g, d)
      | None \<Rightarrow> createGame d t)"

section \<open>The router's \<open>buySpot\<close> (gameRouters)\<close>

text \<open>
  The three errors \<open>buySpot\<close> throws: \<open>Error("Game not found")\<close>,
  \<open>Error("Slot already taken")\<close> and \<open>Error("Insufficient balance")\<close>.
\<close>

datatype error = GameNotFound | SlotTaken | InsufficientFunds

text \<open>
  \<open>buySpot\<close> for the signed-in user \<open>uid\<close>: the error thrown or the \<open>newBalance\<close>
  returned, and the database when the call ends. \<open>rnd\<close> and \<open>now\<close> are used by the
  spin that a full board triggers.
\<close>

definition buySpot :: "db \<Rightarrow> int \<Rightarrow> int \<Rightarrow> int \<Rightarrow> rat \<Rightarrow> date \<Rightarrow> (error + int) \<times> db" where
  "buySpot d uid gid sn rnd now =
     (case getGameState d gid of
        None \<Rightarrow> (Inl GameNotFound, d)
      | Some state \<Rightarrow>
          (if list_ex (\<lambda>s. slotNumber s = sn) (slots state) then (Inl SlotTaken, d)
           else
             (case getUserPoints d uid of (points, d1) \<Rightarrow>
                (if balance points < entryCost (game state) then (Inl InsufficientFunds, d1)
                 else
                   (let d2 = snd (updateUserBalance d1 uid (- entryCost (game state)));
                        d3 = d2\<lparr>gameSlots := gameSlots d2 @
                               [\<lparr>gameId = gid, slotNumber = sn, ownerType = OwnerPlayer,
                                 ownerId = toString uid,
                                 slotEntryCost = entryCost (game state)\<rparr>]\<rparr>;
                        d4 = snd (checkAndSpinIfFull d3 gid rnd now)
                    in (Inr (balance points - entryCost (game state)), d4))))))"

section \<open>Sequences of operations\<close>




text \<open>
  \<open>getOrCreateActiveGame\<close> awaits its select before it goes on, and another call can
  run in between. Its two halves: the select, and the rest of the function, run on the
  database of that later moment with the row the select returned.
  \<open>overlappingGetOrCreateActiveGame\<close> is two calls that overlap: both selects are
  answered before either call goes on.
\<close>

definition selectActiveGame :: "db \<Rightarrow> tier \<Rightarrow> gameRow option" where
  "selectActiveGame d t = find (isActive t) (games d)"

definition resumeGetOrCreateActiveGame :: "db \<Rightarrow> tier \<Rightarrow> gameRow option \<Rightarrow> int \<times> db" where
  "resumeGetOrCreateActiveGame d t activeGame =
     (case activeGame of
        Some g \<Rightarrow> (game_id g, d)
      | None \<Rightarrow> createGame d t)"


text \<open>
  The active games of a tier, and the invariant: each tier has at most one active game,
  and every game is filling, full or completed.
\<close>

definition activeGames :: "db \<Rightarrow> tier \<Rightarrow> gameRow list" where
  "activeGames d t = filter (isActive t) (games d)"

definition oneActivePerTier :: "db \<Rightarrow> bool" where
  "oneActivePerTier d \<longleftrightarrow>
     length (activeGames d Low) \<le> 1 \<and> length (activeGames d Medium) \<le> 1
     \<and> length (activeGames d High) \<le> 1
     \<and> list_all (\<lambda>g. status g = Filling \<or> status g = Full \<or> status g = Completed) (games d)"

text \<open>The empty database, before the first call.\<close>

definition emptyDb :: db where
  "emptyDb = \<lparr>games = [], gameSlots = [], userPoints = [], gamesAutoInc = 1\<rparr>"

section \<open>Example databases\<close>

definition alice :: userPointsRow where
  "alice = \<lparr>userId = 7, balance = 120, totalEarned = 30000, totalWagered = 29880,
     lastDailyReward = None\<rparr>"

definition dbAlice :: db where
  "dbAlice = \<lparr>games = [], gameSlots = [], userPoints = [alice], gamesAutoInc = 1\<rparr>"

definition morning :: date where
  "morning = \<lparr>getFullYear = 2025, getMonth = 0, getDate = 15, timeOfDay = 32400000\<rparr>"

definition evening :: date where
  "evening = \<lparr>getFullYear = 2025, getMonth = 0, getDate = 15, timeOfDay = 75600000\<rparr>"

definition highGame :: gameRow where
  "highGame = \<lparr>game_id = 1, tier = High, slotCount = 6, entryCost = 25, edgePct = - 20,
     winningSlot = None, winnerType = None, winnerId = None, payout = None,
     houseCommission = None, status = Filling, completedAt = None\<rparr>"

definition lowGame :: gameRow where
  "lowGame = \<lparr>game_id = 1, tier = Low, slotCount = 12, entryCost = 5, edgePct = - 2,
     winningSlot = None, winnerType = None, winnerId = None, payout = None,
     houseCommission = None, status = Filling, completedAt = None\<rparr>"

definition mkSlot :: "owner_type \<Rightarrow> string \<Rightarrow> int \<Rightarrow> int \<Rightarrow> gameSlotRow" where
  "mkSlot ot oid cost n = \<lparr>gameId = 1, slotNumber = n, ownerType = ot, ownerId = oid,
     slotEntryCost = cost\<rparr>"

definition dbHighFull :: db where
  "dbHighFull = \<lparr>games = [highGame],
     gameSlots = map (mkSlot OwnerPlayer ''7'' 25) [1, 2, 3, 4, 5, 6],
     userPoints = [\<lparr>userId = 7, balance = 29850, totalEarned = 30000, totalWagered = 150,
                    lastDailyReward = None\<rparr>],
     gamesAutoInc = 2\<rparr>"

definition dbLowMixed :: db where
  "dbLowMixed = \<lparr>games = [lowGame],
     gameSlots = map (mkSlot OwnerPlayer ''7'' 5) [1, 2, 3]
               @ map (mkSlot OwnerBot ''T'' 5) [4, 5, 6, 7, 8, 9, 10, 11, 12],
     userPoints = [\<lparr>userId = 7, balance = 29985, totalEarned = 30000, totalWagered = 15,
                    lastDailyReward = None\<rparr>],
     gamesAutoInc = 2\<rparr>"

definition dbBadOwner :: db where
  "dbBadOwner = \<lparr>games = [highGame],
     gameSlots = [mkSlot OwnerPlayer ''abc'' 25 1],
     userPoints = [\<lparr>userId = 7, balance = 29850, totalEarned = 30000, totalWagered = 150,
                    lastDailyReward = None\<rparr>],
     gamesAutoInc = 2\<rparr>"

definition dbGap :: db where
  "dbGap = \<lparr>games = [highGame],
     gameSlots = [mkSlot OwnerPlayer ''7'' 25 1, mkSlot OwnerBot ''K'' 25 2,
                  mkSlot OwnerPlayer ''7'' 25 4],
     userPoints = [\<lparr>userId = 7, balance = 29950, totalEarned = 30000, totalWagered = 50,
                    lastDailyReward = None\<rparr>],
     gamesAutoInc = 2\<rparr>"

definition bob :: userPointsRow where
  "bob = \<lparr>userId = 9, balance = 10, totalEarned = 30000, totalWagered = 29990,
     lastDailyReward = None\<rparr>"

definition dbPoor :: db where
  "dbPoor = \<lparr>games = [highGame], gameSlots = [mkSlot OwnerBot ''K'' 25 1],
     userPoints = [bob], gamesAutoInc = 2\<rparr>"



text \<open>A completed game: \<open>dbHighFull\<close> after \<open>spinGame\<close> drew slot 1 in the morning.\<close>

definition dbSettled :: db where
  "dbSettled = \<lparr>games = [highGame\<lparr>winningSlot := Some 1, winnerType := Some Player,
       winnerId := Some ''7'', payout := Some 120, houseCommission := Some 15,
       status := Completed, completedAt := Some morning\<rparr>],
     gameSlots = map (mkSlot OwnerPlayer ''7'' 25) [1, 2, 3, 4, 5, 6],
     userPoints = [\<lparr>userId = 7, balance = 29970, totalEarned = 30120, totalWagered = 150,
                    lastDailyReward = None\<rparr>],
     gamesAutoInc = 2\<rparr>"

section \<open>Properties of the number model\<close>

text \<open>
  \<open>binade\<close> is the binary exponent, \<open>fl\<close> is within half a unit in the last place of
  its argument, and it leaves every integer of at most 53 bits as it is; three known
  roundings of binary64 are evaluated at the end.
\<close>

lemma pow2_powi: "pow2 e = 2 powi e"
  by (simp add: pow2_def power_int_def inverse_eq_divide power_one_over)

lemma powi_bitlen:
  assumes "0 < p"
  shows "(2::rat) powi (bitlen p - 1) \<le> of_int p \<and> of_int p < (2::rat) powi (bitlen p)"
proof -
  from bitlen_bounds [OF assms]
  have a: "2 ^ nat (bitlen p - 1) \<le> p" and b: "p < 2 ^ nat (bitlen p)"
    by simp_all
  have ge: "1 \<le> bitlen p"
    using assms bitlen_eq_zero_iff [of p] bitlen_nonneg [of p] by linarith
  have "(of_int (2 ^ nat (bitlen p - 1)) :: rat) \<le> of_int p"
    using a by (simp only: of_int_le_iff)
  moreover have "(of_int p :: rat) < of_int (2 ^ nat (bitlen p))"
    using b by (simp only: of_int_less_iff)
  ultimately show ?thesis
    using ge by (simp add: power_int_def)
qed

lemma binade_bounds:
  assumes "x \<noteq> 0"
  shows "pow2 (binade x) \<le> \<bar>x\<bar> \<and> \<bar>x\<bar> < pow2 (binade x + 1)"
proof -
  obtain p q where pq: "quotient_of \<bar>x\<bar> = (p, q)"
    by (cases "quotient_of \<bar>x\<bar>")
  then have q: "0 < q" and x: "\<bar>x\<bar> = of_int p / of_int q"
    by (simp_all add: quotient_of_denom_pos quotient_of_div)
  from assms have "0 < \<bar>x\<bar>" by simp
  with x q have p: "0 < p"
    by (simp add: zero_less_divide_iff)
  let ?k = "bitlen p - bitlen q"
  from powi_bitlen [OF p] powi_bitlen [OF q]
  have bp: "(2::rat) powi (bitlen p - 1) \<le> of_int p" "of_int p < (2::rat) powi (bitlen p)"
    and bq: "(2::rat) powi (bitlen q - 1) \<le> of_int q" "of_int q < (2::rat) powi (bitlen q)"
    by simp_all
  have qpos: "(0::rat) < of_int q" using q by simp
  have ppos: "(0::rat) < of_int p" using p by simp
  have "\<bar>x\<bar> * 2 powi (bitlen q - 1) \<le> \<bar>x\<bar> * of_int q"
    using bq(1) \<open>0 < \<bar>x\<bar>\<close> by (simp add: mult_left_mono)
  also have "\<dots> = of_int p" using x qpos by simp
  also have "\<dots> < 2 powi (bitlen p)" by (rule bp(2))
  finally have "\<bar>x\<bar> < 2 powi (bitlen p) / 2 powi (bitlen q - 1)"
    by (simp add: pos_less_divide_eq)
  moreover have "(2::rat) powi (?k + 1) = 2 powi (bitlen p) / 2 powi (bitlen q - 1)"
    by (simp add: power_int_diff power_int_add)
  ultimately have up: "\<bar>x\<bar> < 2 powi (?k + 1)"
    by simp
  have "2 powi (bitlen p - 1) \<le> (of_int p :: rat)" by (rule bp(1))
  also have "\<dots> = \<bar>x\<bar> * of_int q" using x qpos by simp
  also have "\<dots> < \<bar>x\<bar> * 2 powi (bitlen q)"
    using bq(2) \<open>0 < \<bar>x\<bar>\<close> by (simp add: mult_strict_left_mono)
  finally have "2 powi (bitlen p - 1) / 2 powi (bitlen q) < \<bar>x\<bar>"
    by (simp add: pos_divide_less_eq)
  moreover have "(2::rat) powi (?k - 1) = 2 powi (bitlen p - 1) / 2 powi (bitlen q)"
    by (simp add: power_int_diff)
  ultimately have lo: "2 powi (?k - 1) < \<bar>x\<bar>"
    by simp
  show ?thesis
  proof (cases "pow2 ?k \<le> \<bar>x\<bar>")
    case True
    then have "binade x = ?k" by (simp add: binade_def pq)
    with True up show ?thesis by (simp add: pow2_powi)
  next
    case False
    then have "binade x = ?k - 1" by (simp add: binade_def pq)
    with False lo show ?thesis by (simp add: pow2_powi)
  qed
qed

lemma fl_one_tenth: "fl (1 / 10) = 3602879701896397 / 36028797018963968"
  by code_simp

lemma fl_sum_tenths:
  "fl (fl (1 / 10) + fl (2 / 10)) = 5404319552844596 / 18014398509481984"
  by code_simp

lemma fl_ties_to_even:
  "fl (9007199254740993) = 9007199254740992 \<and> fl (9007199254740995) = 9007199254740996"
  by code_simp


lemma roundTiesToEven_of_int: "roundTiesToEven (of_int n) = n"
  by (simp add: roundTiesToEven_def)

lemma roundTiesToEven_error: "\<bar>of_int (roundTiesToEven y) - y\<bar> \<le> 1 / 2"
proof -
  have "of_int \<lfloor>y\<rfloor> \<le> y" "y < of_int \<lfloor>y\<rfloor> + 1"
    by linarith+
  then show ?thesis
    by (auto simp: roundTiesToEven_def Let_def abs_le_iff)
qed

lemma pow2_pos: "0 < pow2 e"
  by (simp add: pow2_powi)

lemma fl_error:
  assumes "x \<noteq> 0"
  shows "\<bar>fl x - x\<bar> \<le> pow2 (binade x - 53)"
proof -
  let ?u = "pow2 (binade x - 52)"
  have u: "0 < ?u" by (rule pow2_pos)
  have "fl x - x = (of_int (roundTiesToEven (x / ?u)) - x / ?u) * ?u"
    using assms u by (simp add: fl_def Let_def algebra_simps)
  then have "\<bar>fl x - x\<bar> = \<bar>of_int (roundTiesToEven (x / ?u)) - x / ?u\<bar> * ?u"
    using u by (simp add: abs_mult)
  also have "\<dots> \<le> 1 / 2 * ?u"
    using roundTiesToEven_error [of "x / ?u"] u by (intro mult_right_mono) simp_all
  also have "\<dots> = pow2 (binade x - 53)"
    by (simp add: pow2_powi power_int_diff)
  finally show ?thesis .
qed

lemma fl_representable:
  assumes "x = of_int m * pow2 (binade x - 52)"
  shows "fl x = x"
proof (cases "x = 0")
  case True
  then show ?thesis by (simp add: fl_def)
next
  case False
  let ?u = "pow2 (binade x - 52)"
  have u: "0 < ?u" by (rule pow2_pos)
  from assms u have "x / ?u = of_int m" by (simp add: field_simps)
  then have "fl x = of_int m * ?u"
    using False by (simp add: fl_def Let_def roundTiesToEven_of_int)
  with assms show ?thesis by simp
qed

lemma fl_of_int:
  assumes "\<bar>n\<bar> \<le> 2 ^ 53"
  shows "fl (of_int n) = of_int n"
proof (cases "n = 0")
  case True
  then show ?thesis by (simp add: fl_def)
next
  case False
  let ?x = "of_int n :: rat"
  let ?e = "binade ?x"
  from False have nz: "?x \<noteq> 0" by simp
  from binade_bounds [OF nz]
  have lo: "2 powi ?e \<le> \<bar>?x\<bar>" and hi: "\<bar>?x\<bar> < 2 powi (?e + 1)"
    by (simp_all add: pow2_powi)
  have "\<bar>?x\<bar> \<le> 2 powi 53"
    using assms by (metis of_int_abs of_int_le_iff of_int_numeral of_int_power power_int_numeral
        numeral_power_eq_of_nat_cancel_iff of_nat_numeral power_int_of_nat)
  with lo have "(2::rat) powi ?e \<le> 2 powi 53" by linarith
  then have e53: "?e \<le> 53"
    by (rule power_int_le_imp_le_exp [rotated]) simp_all
  have "1 \<le> \<bar>?x\<bar>" using False by (metis of_int_abs of_int_1_le_iff zero_less_abs_iff int_one_le_iff_zero_less)
  with hi have "(2::rat) powi 0 < 2 powi (?e + 1)" by simp
  then have "0 < ?e + 1"
  proof (rule power_int_le_imp_less_exp [rotated])
    show "0 \<le> ?e + 1"
    proof (rule ccontr)
      assume "\<not> 0 \<le> ?e + 1"
      then have "?e + 1 \<le> 0" by simp
      then have "(2::rat) powi (?e + 1) \<le> 2 powi 0"
        by (intro power_int_increasing) simp_all
      with \<open>(2::rat) powi 0 < 2 powi (?e + 1)\<close> show False by simp
    qed
  qed simp
  then have e0: "0 \<le> ?e" by simp
  show ?thesis
  proof (cases "?e \<le> 52")
    case True
    have "pow2 (?e - 52) = 1 / 2 ^ nat (52 - ?e)"
      using True by (auto simp: pow2_def)
    then have "?x = of_int (n * 2 ^ nat (52 - ?e)) * pow2 (?e - 52)"
      by simp
    then show ?thesis by (rule fl_representable)
  next
    case False
    with e53 have e: "?e = 53" by simp
    with lo \<open>\<bar>?x\<bar> \<le> 2 powi 53\<close> have "\<bar>?x\<bar> = 2 ^ 53" by simp
    then have "\<bar>n\<bar> = 2 ^ 53"
      by (metis of_int_abs of_int_eq_iff of_int_numeral of_int_power)
    then have "even \<bar>n\<bar>" by simp
    then have "n = 2 * (n div 2)" by simp
    then have "?x = of_int (n div 2) * pow2 (?e - 52)"
      using e by (simp add: pow2_def)
    then show ?thesis by (rule fl_representable)
  qed
qed

text \<open>
  A number between two multiples of \<open>2^-q\<close> is rounded to a number between them, as
  long as its last place is no coarser than \<open>2^-q\<close>. With it, the commission computed in
  binary64 is the exact rounding of a tenth of the pot, for every pot from 0 below
  \<open>2^40\<close>.
\<close>

lemma roundTiesToEven_ge: "of_int m \<le> y \<Longrightarrow> m \<le> roundTiesToEven y"
proof -
  assume "of_int m \<le> y"
  then have "m \<le> \<lfloor>y\<rfloor>" by (simp add: le_floor_iff)
  moreover have "\<lfloor>y\<rfloor> \<le> roundTiesToEven y"
    by (simp add: roundTiesToEven_def Let_def)
  ultimately show ?thesis by simp
qed

lemma roundTiesToEven_le: "y \<le> of_int m \<Longrightarrow> roundTiesToEven y \<le> m"
proof (cases "y = of_int m")
  case True
  then show ?thesis by (simp add: roundTiesToEven_of_int)
next
  case False
  assume "y \<le> of_int m"
  with False have "y < of_int m" by simp
  then have "\<lfloor>y\<rfloor> < m" by (simp add: floor_less_iff)
  moreover have "roundTiesToEven y \<le> \<lfloor>y\<rfloor> + 1"
    by (simp add: roundTiesToEven_def Let_def)
  ultimately show ?thesis by simp
qed

lemma fl_between:
  assumes nz: "x \<noteq> 0"
    and e: "binade x + int q \<le> 52"
    and lo: "of_int a / 2 ^ q \<le> x"
    and hi: "x \<le> of_int b / 2 ^ q"
  shows "of_int a / 2 ^ q \<le> fl x \<and> fl x \<le> of_int b / 2 ^ q"
proof -
  define s where "s = nat (52 - binade x)"
  have sq: "q \<le> s" using e by (simp add: s_def)
  have u: "pow2 (binade x - 52) = 1 / 2 ^ s"
    using e by (auto simp: pow2_def s_def)
  have split: "(2::rat) ^ s = 2 ^ q * 2 ^ (s - q)"
    using sq by (simp flip: power_add)
  have f: "fl x = of_int (roundTiesToEven (x * 2 ^ s)) / 2 ^ s"
    using nz by (simp add: fl_def Let_def u)
  have "of_int (a * 2 ^ (s - q)) \<le> x * 2 ^ s"
    using lo by (simp add: split field_simps)
  then have "a * 2 ^ (s - q) \<le> roundTiesToEven (x * 2 ^ s)"
    by (rule roundTiesToEven_ge)
  then have "(of_int (a * 2 ^ (s - q)) :: rat) \<le> of_int (roundTiesToEven (x * 2 ^ s))"
    by (simp only: of_int_le_iff)
  then have l: "of_int a / 2 ^ q \<le> fl x"
    by (simp add: f split field_simps)
  have "x * 2 ^ s \<le> of_int (b * 2 ^ (s - q))"
    using hi by (simp add: split field_simps)
  then have "roundTiesToEven (x * 2 ^ s) \<le> b * 2 ^ (s - q)"
    by (rule roundTiesToEven_le)
  then have "(of_int (roundTiesToEven (x * 2 ^ s)) :: rat) \<le> of_int (b * 2 ^ (s - q))"
    by (simp only: of_int_le_iff)
  then have h: "fl x \<le> of_int b / 2 ^ q"
    by (simp add: f split field_simps)
  from l h show ?thesis by simp
qed


lemma specHouseCommission_div: "specHouseCommission pot = (pot + 5) div 10"
proof -
  have "(of_int pot :: rat) / 10 + 1 / 2 = of_int (pot + 5) / of_int 10"
    by simp
  then show ?thesis
    unfolding specHouseCommission_def by (simp only: floor_divide_of_int_eq)
qed

lemma tenth_rounding:
  assumes r: "0 \<le> r" "r \<le> 9" and k: "0 \<le> k" "k < 2 ^ 37" and nz: "10 * k + r \<noteq> 0"
  shows "Math_round (fl (of_int (10 * k + r) * fl (1 / 10))) = (if r \<le> 4 then k else k + 1)"
proof -
  define K :: rat where "K = of_int k"
  define R :: rat where "R = of_int r"
  define x :: rat where "x = (10 * K + R) * (3602879701896397 / 36028797018963968)"
  have K: "0 \<le> K" "K < 137438953472"
    using k by (simp_all add: K_def)
  have R: "0 \<le> R" "R \<le> 9"
    using r by (simp_all add: R_def)
  have "0 < 10 * k + r" using r k nz by linarith
  then have "(0::rat) < of_int (10 * k + r)" by (simp only: of_int_0_less_iff)
  then have pos: "0 < 10 * K + R" by (simp add: K_def R_def)
  then have xpos: "0 < x" by (simp add: x_def)
  have xe: "of_int (10 * k + r) * fl (1 / 10) = x"
    by (simp add: x_def K_def R_def fl_one_tenth)
  have "x < 274877906944"
    using K R by (simp add: x_def)
  then have "\<bar>x\<bar> < 2 powi 38" using xpos by simp
  with binade_bounds [of x] xpos have "(2::rat) powi (binade x) < 2 powi 38"
    by (simp add: pow2_powi)
  then have "binade x < 38"
    by (rule power_int_le_imp_less_exp [rotated]) simp_all
  then have e: "binade x + int 10 \<le> 52" by simp
  show ?thesis
  proof (cases "r \<le> 4")
    case True
    then have R4: "R \<le> 4" by (simp add: R_def)
    have lo: "of_int (k * 1024) / 2 ^ 10 \<le> x"
      using K R by (simp add: x_def K_def [symmetric])
    have hi: "x \<le> of_int (k * 1024 + 511) / 2 ^ 10"
      using K R4 by (simp add: x_def K_def [symmetric] field_simps)
    from fl_between [OF _ e lo hi] xpos
    have "K \<le> fl x" "fl x \<le> K + 511 / 1024"
      by (simp_all add: K_def field_simps)
    then have "\<lfloor>fl x + 1 / 2\<rfloor> = k"
      by (intro floor_unique) (simp_all add: K_def)
    with True show ?thesis unfolding Math_round_def xe by simp
  next
    case False
    then have "5 \<le> r" by simp
    then have R5: "5 \<le> R" by (simp add: R_def)
    have lo: "of_int (k * 1024 + 512) / 2 ^ 10 \<le> x"
      using K R5 by (simp add: x_def K_def [symmetric] field_simps)
    have hi: "x \<le> of_int (k * 1024 + 1535) / 2 ^ 10"
      using K R by (simp add: x_def K_def [symmetric] field_simps)
    from fl_between [OF _ e lo hi] xpos
    have "K + 1 / 2 \<le> fl x" "fl x \<le> K + 1535 / 1024"
      by (simp_all add: K_def field_simps)
    then have "\<lfloor>fl x + 1 / 2\<rfloor> = k + 1"
      by (intro floor_unique) (simp_all add: K_def)
    with False show ?thesis unfolding Math_round_def xe by simp
  qed
qed


lemma computeHouseCommission_spec:
  assumes "0 \<le> n * c" and "n * c < 2 ^ 40"
  shows "computeHouseCommission n c = specHouseCommission (n * c)"
proof -
  define pot where "pot = n * c"
  define k where "k = pot div 10"
  define r where "r = pot mod 10"
  have p: "pot = 10 * k + r" by (simp add: k_def r_def)
  have r: "0 \<le> r" "r \<le> 9" by (simp_all add: r_def)
  have k: "0 \<le> k" "k < 2 ^ 37" using assms by (simp_all add: k_def pot_def)
  have "\<bar>pot\<bar> \<le> 2 ^ 53" using assms by (simp add: pot_def)
  then have "fl (of_int pot) = of_int pot" by (rule fl_of_int)
  then have c: "computeHouseCommission n c = Math_round (fl (of_int pot * fl (1 / 10)))"
    by (simp add: computeHouseCommission_def pot_def)
  have s: "specHouseCommission pot = (if r \<le> 4 then k else k + 1)"
    unfolding specHouseCommission_div p using r by (simp split: if_splits) presburger
  show ?thesis
  proof (cases "pot = 0")
    case True
    then show ?thesis
      unfolding c by (simp add: fl_def Math_round_def specHouseCommission_def flip: pot_def)
  next
    case False
    with p have "10 * k + r \<noteq> 0" by simp
    from tenth_rounding [OF r k this] s show ?thesis
      unfolding c by (simp add: p flip: pot_def)
  qed
qed

section \<open>Properties of the ledger\<close>

lemma find_append_None: "find P xs = None \<Longrightarrow> find P (xs @ ys) = find P ys"
  by (induction xs) auto

lemma selectUserPoints_after_insert:
  "selectUserPoints d uid = None \<Longrightarrow>
   selectUserPoints (d\<lparr>userPoints := userPoints d @ [newUserPoints uid]\<rparr>) uid
     = Some (newUserPoints uid)"
  by (simp add: selectUserPoints_def find_append_None newUserPoints_def)

lemma find_map_update:
  assumes "\<And>p. k (f p) = k p"
  shows "find (\<lambda>p. k p = u) (map (\<lambda>p. if k p = u then f p else p) xs)
         = map_option f (find (\<lambda>p. k p = u) xs)"
  using assms by (induction xs) auto

lemma selectUserPoints_update:
  assumes "\<And>p. userId (f p) = userId p"
  shows "selectUserPoints (updateUserPoints d uid f) uid = map_option f (selectUserPoints d uid)"
  using find_map_update [of userId f uid "userPoints d"] assms
  by (simp add: selectUserPoints_def updateUserPoints_def)

lemma selectUserPoints_getOrCreate:
  "selectUserPoints (snd (getOrCreateUserPoints d uid)) uid
     = Some (fst (getOrCreateUserPoints d uid))"
  by (cases "selectUserPoints d uid")
     (simp_all add: getOrCreateUserPoints_def selectUserPoints_after_insert)

lemma getOrCreateUserPoints_existing:
  "selectUserPoints d uid = Some p \<Longrightarrow> getOrCreateUserPoints d uid = (p, d)"
  by (simp add: getOrCreateUserPoints_def)

text \<open>
  C10. For a user without a record, \<open>getOrCreateUserPoints\<close> (and \<open>getUserPoints\<close>,
  which only calls it) appends one row with balance 30000, totalEarned 30000,
  totalWagered 0 and no lastDailyReward, returns it and leaves the other tables alone;
  a later select finds that row. For a user with a record it returns that record and
  leaves the database as it is.
\<close>

theorem getOrCreateUserPoints_default_or_existing:
  "(selectUserPoints d uid = None \<longrightarrow>
      fst (getOrCreateUserPoints d uid)
        = \<lparr>userId = uid, balance = 30000, totalEarned = 30000, totalWagered = 0,
           lastDailyReward = None\<rparr>
      \<and> snd (getOrCreateUserPoints d uid)
          = d\<lparr>userPoints := userPoints d @ [fst (getOrCreateUserPoints d uid)]\<rparr>
      \<and> selectUserPoints (snd (getOrCreateUserPoints d uid)) uid
          = Some (fst (getOrCreateUserPoints d uid)))
   \<and> (\<forall>p. selectUserPoints d uid = Some p \<longrightarrow> getOrCreateUserPoints d uid = (p, d))
   \<and> getUserPoints d uid = getOrCreateUserPoints d uid"
  by (auto simp: getOrCreateUserPoints_def getUserPoints_def newUserPoints_def
        selectUserPoints_def find_append_None)

theorem getOrCreateUserPoints_default_or_existing_witness:
  "selectUserPoints emptyDb 7 = None
   \<and> getUserPoints emptyDb 7
       = (\<lparr>userId = 7, balance = 30000, totalEarned = 30000, totalWagered = 0,
           lastDailyReward = None\<rparr>,
          emptyDb\<lparr>userPoints := [\<lparr>userId = 7, balance = 30000, totalEarned = 30000,
                    totalWagered = 0, lastDailyReward = None\<rparr>]\<rparr>)
   \<and> selectUserPoints dbAlice 7 = Some alice
   \<and> getUserPoints dbAlice 7 = (alice, dbAlice)"
proof -
  have a: "selectUserPoints emptyDb 7 = None"
    by (simp add: selectUserPoints_def emptyDb_def)
  have b: "selectUserPoints dbAlice 7 = Some alice"
    by (simp add: selectUserPoints_def dbAlice_def alice_def)
  have u: "userPoints emptyDb = []"
    by (simp add: emptyDb_def)
  from getOrCreateUserPoints_default_or_existing [of emptyDb 7] a u
  have c: "getUserPoints emptyDb 7
       = (\<lparr>userId = 7, balance = 30000, totalEarned = 30000, totalWagered = 0,
           lastDailyReward = None\<rparr>,
          emptyDb\<lparr>userPoints := [\<lparr>userId = 7, balance = 30000, totalEarned = 30000,
                    totalWagered = 0, lastDailyReward = None\<rparr>]\<rparr>)"
    by (simp add: prod_eq_iff)
  from getOrCreateUserPoints_default_or_existing [of dbAlice 7] b
  have e: "getUserPoints dbAlice 7 = (alice, dbAlice)"
    by simp
  from a b c e show ?thesis by blast
qed

lemma sameDay_newDate:
  "newDate (getFullYear a) (getMonth a) (getDate a)
     = newDate (getFullYear b) (getMonth b) (getDate b) \<longleftrightarrow> sameDay a b"
  by (auto simp: newDate_def sameDay_def)

lemma applyDailyReward_grant:
  assumes "getOrCreateUserPoints d uid = (p, d1)"
    and "case lastDailyReward p of None \<Rightarrow> True | Some l \<Rightarrow> \<not> sameDay now l"
  shows "applyDailyReward d uid now =
     (True, updateUserPoints d1 uid (\<lambda>q. q\<lparr>balance := balance p + 50000,
         totalEarned := totalEarned p + 50000, lastDailyReward := Some now\<rparr>))"
  using assms
  by (auto simp: applyDailyReward_def sameDay_newDate Let_def split: option.splits)

lemma applyDailyReward_refuse:
  assumes "selectUserPoints d uid = Some p" and "lastDailyReward p = Some l" and "sameDay now l"
  shows "applyDailyReward d uid now = (False, d)"
  using assms
  by (simp add: applyDailyReward_def getOrCreateUserPoints_existing sameDay_newDate Let_def)

text \<open>
  C9. Take a user who has not been rewarded on the day of \<open>now1\<close> yet (no last reward,
  or one on another day), and a second call at \<open>now2\<close> on the same calendar day. The
  first call returns true and the second false, in \<open>applyDailyReward\<close> and in the
  router's \<open>claimDailyReward\<close>. After the first call the user's row is the row read
  before it with balance and totalEarned raised by 50000 and lastDailyReward set to
  \<open>now1\<close>; the second call leaves the whole database as it is.
\<close>

theorem claimDailyReward_once_per_day:
  assumes fresh: "case lastDailyReward (fst (getOrCreateUserPoints d uid)) of
                    None \<Rightarrow> True | Some l \<Rightarrow> \<not> sameDay now1 l"
    and same: "sameDay now2 now1"
  shows "fst (applyDailyReward d uid now1) = True
     \<and> applyDailyReward (snd (applyDailyReward d uid now1)) uid now2
         = (False, snd (applyDailyReward d uid now1))
     \<and> selectUserPoints (snd (applyDailyReward d uid now1)) uid
         = Some ((fst (getOrCreateUserPoints d uid))\<lparr>
             balance := balance (fst (getOrCreateUserPoints d uid)) + 50000,
             totalEarned := totalEarned (fst (getOrCreateUserPoints d uid)) + 50000,
             lastDailyReward := Some now1\<rparr>)
     \<and> fst (fst (claimDailyReward d uid now1)) = True
     \<and> claimDailyReward (snd (claimDailyReward d uid now1)) uid now2
         = ((False, None), snd (applyDailyReward d uid now1))"
proof -
  obtain p d1 where g: "getOrCreateUserPoints d uid = (p, d1)"
    by (cases "getOrCreateUserPoints d uid")
  let ?f = "\<lambda>q. q\<lparr>balance := balance p + 50000, totalEarned := totalEarned p + 50000,
                   lastDailyReward := Some now1\<rparr>"
  let ?d2 = "updateUserPoints d1 uid ?f"
  from fresh g have a: "applyDailyReward d uid now1 = (True, ?d2)"
    by (intro applyDailyReward_grant) simp_all
  have s1: "selectUserPoints d1 uid = Some p"
    using selectUserPoints_getOrCreate [of d uid] g by simp
  have s2: "selectUserPoints ?d2 uid = Some (?f p)"
    using selectUserPoints_update [of ?f d1 uid] s1 by simp
  have b: "applyDailyReward ?d2 uid now2 = (False, ?d2)"
    using s2 same by (intro applyDailyReward_refuse [where p = "?f p" and l = now1]) simp_all
  have c: "claimDailyReward d uid now1 = ((True, Some (balance p + 50000)), ?d2)"
    using a s2 by (simp add: claimDailyReward_def getUserPoints_def getOrCreateUserPoints_existing)
  have e: "claimDailyReward ?d2 uid now2 = ((False, None), ?d2)"
    using b by (simp add: claimDailyReward_def)
  from a b s2 c e g show ?thesis by simp
qed

theorem claimDailyReward_once_per_day_witness:
  "sameDay evening morning
   \<and> lastDailyReward (fst (getOrCreateUserPoints dbAlice 7)) = None
   \<and> fst (applyDailyReward dbAlice 7 morning) = True
   \<and> fst (applyDailyReward (snd (applyDailyReward dbAlice 7 morning)) 7 evening) = False
   \<and> map_option balance (selectUserPoints (snd (applyDailyReward dbAlice 7 morning)) 7)
       = Some 50120"
proof -
  have h1: "sameDay evening morning"
    by (simp add: sameDay_def evening_def morning_def)
  have g: "getOrCreateUserPoints dbAlice 7 = (alice, dbAlice)"
    by (simp add: getOrCreateUserPoints_def selectUserPoints_def dbAlice_def alice_def)
  have h2: "lastDailyReward (fst (getOrCreateUserPoints dbAlice 7)) = None"
    by (simp add: g alice_def)
  have h3: "case lastDailyReward (fst (getOrCreateUserPoints dbAlice 7)) of
              None \<Rightarrow> True | Some l \<Rightarrow> \<not> sameDay morning l"
    by (simp add: h2)
  have b: "balance alice = 120"
    by (simp add: alice_def)
  from claimDailyReward_once_per_day [OF h3 h1] h1 h2 show ?thesis
    by (simp add: g b)
qed

section \<open>Properties of the engine\<close>

lemma getOrCreateUserPoints_frame:
  "games (snd (getOrCreateUserPoints d uid)) = games d"
  "gameSlots (snd (getOrCreateUserPoints d uid)) = gameSlots d"
  "gamesAutoInc (snd (getOrCreateUserPoints d uid)) = gamesAutoInc d"
  by (simp_all add: getOrCreateUserPoints_def split: option.splits)

lemma updateUserBalance_frame:
  "games (snd (updateUserBalance d uid amount)) = games d"
  "gameSlots (snd (updateUserBalance d uid amount)) = gameSlots d"
  "gamesAutoInc (snd (updateUserBalance d uid amount)) = gamesAutoInc d"
  using getOrCreateUserPoints_frame [of d uid]
  by (cases "getOrCreateUserPoints d uid";
      simp add: updateUserBalance_def updateUserPoints_def Let_def)+

lemma getGameState_cong:
  "games d' = games d \<Longrightarrow> gameSlots d' = gameSlots d \<Longrightarrow> getGameState d' gid = getGameState d gid"
  by (simp add: getGameState_def Let_def split: option.splits)

lemma getGameState_game_id:
  "getGameState d gid = Some st \<Longrightarrow> game_id (game st) = gid"
  by (auto simp: getGameState_def Let_def split: option.splits dest: find_Some_iff [THEN iffD1])

lemma getGameState_slots:
  "getGameState d gid = Some st \<Longrightarrow>
     slots st = filter (\<lambda>s. gameId s = gid) (gameSlots d) \<and> filledCount st = int (length (slots st))"
  by (auto simp: getGameState_def Let_def split: option.splits)

text \<open>The row \<open>spinGame\<close> leaves behind for a game.\<close>

lemma spinGame_fst: "fst (spinGame d gid rnd now) \<longleftrightarrow> getGameState d gid \<noteq> None"
  by (simp add: spinGame_def Let_def split: option.splits)

lemma spinGame_gameSlots: "gameSlots (snd (spinGame d gid rnd now)) = gameSlots d"
  by (simp add: spinGame_def Let_def updateGame_def updateUserBalance_frame split: option.splits)

lemma spinGame_games:
  assumes "getGameState d gid = Some st"
  shows "games (snd (spinGame d gid rnd now)) =
     map (\<lambda>g. if game_id g = gid
               then g\<lparr>winningSlot := Some (sWinningSlot (settle st rnd)),
                      winnerType := Some (sWinnerType (settle st rnd)),
                      winnerId := Some (sWinnerId (settle st rnd)),
                      payout := Some (if sWinnerType (settle st rnd) = Player
                                      then sPayout (settle st rnd) else 0),
                      houseCommission := Some (sHouseCommission (settle st rnd)),
                      status := Completed,
                      completedAt := Some now\<rparr>
               else g) (games d)"
  using assms
  by (simp add: spinGame_def Let_def updateGame_def updateUserBalance_frame comp_def
        split: option.splits cong: if_cong)

lemma spinGame_userPoints_unchanged:
  assumes "getGameState d gid = Some st"
    and "sWinnerType (settle st rnd) \<noteq> Player \<or> parseInt (sWinnerId (settle st rnd)) = None"
  shows "userPoints (snd (spinGame d gid rnd now)) = userPoints d"
  using assms by (auto simp: spinGame_def Let_def updateGame_def)

lemma spinGame_persisted:
  assumes "getGameState d gid = Some st"
  shows "getGameState (snd (spinGame d gid rnd now)) gid =
     Some (st\<lparr>game := (game st)\<lparr>winningSlot := Some (sWinningSlot (settle st rnd)),
                      winnerType := Some (sWinnerType (settle st rnd)),
                      winnerId := Some (sWinnerId (settle st rnd)),
                      payout := Some (if sWinnerType (settle st rnd) = Player
                                      then sPayout (settle st rnd) else 0),
                      houseCommission := Some (sHouseCommission (settle st rnd)),
                      status := Completed,
                      completedAt := Some now\<rparr>\<rparr>)"
proof -
  let ?F = "\<lambda>g. g\<lparr>winningSlot := Some (sWinningSlot (settle st rnd)),
                      winnerType := Some (sWinnerType (settle st rnd)),
                      winnerId := Some (sWinnerId (settle st rnd)),
                      payout := Some (if sWinnerType (settle st rnd) = Player
                                      then sPayout (settle st rnd) else 0),
                      houseCommission := Some (sHouseCommission (settle st rnd)),
                      status := Completed,
                      completedAt := Some now\<rparr>"
  from assms have g: "find (\<lambda>g. game_id g = gid) (games d) = Some (game st)"
    and sl: "slots st = filter (\<lambda>s. gameId s = gid) (gameSlots d)"
    and fc: "filledCount st = int (length (filter (\<lambda>s. gameId s = gid) (gameSlots d)))"
    and ec: "emptyCount st = slotCount (game st)
               - int (length (filter (\<lambda>s. gameId s = gid) (gameSlots d)))"
    by (auto simp: getGameState_def Let_def split: option.splits)
  have "find (\<lambda>g. game_id g = gid) (games (snd (spinGame d gid rnd now))) = Some (?F (game st))"
    using find_map_update [of game_id ?F gid "games d"] g
    by (simp add: spinGame_games [OF assms])
  then show ?thesis
    using sl fc ec by (simp add: getGameState_def spinGame_gameSlots Let_def)
qed

lemma settle_found:
  assumes "find (\<lambda>s. slotNumber s = drawWinningSlot rnd (slotCount (game st))) (slots st) = Some ws"
  shows "sWinningSlot (settle st rnd) = drawWinningSlot rnd (slotCount (game st))"
    and "sWinnerType (settle st rnd) = asWinnerType (ownerType ws)"
    and "sWinnerId (settle st rnd) = ownerId ws"
    and "sPayout (settle st rnd) =
           (if 0 < int (length (filter (\<lambda>s. ownerType s = OwnerPlayer) (slots st)))
               \<and> asWinnerType (ownerType ws) = Player
            then computePayout (int (length (filter (\<lambda>s. ownerType s = OwnerPlayer) (slots st))))
                   (slotCount (game st)) (int (length (slots st))) (entryCost (game st))
                   (edgePct (game st))
            else 0)"
    and "sHouseCommission (settle st rnd)
           = computeHouseCommission (int (length (slots st))) (entryCost (game st))"
  using assms by (simp_all add: settle_def Let_def)

lemma payout_high: "computePayout 6 6 6 25 (- 20) = 120"
  by code_simp

lemma commission_high: "computeHouseCommission 6 25 = 15"
  by code_simp

lemma commission_low: "computeHouseCommission 12 5 = 6"
  by code_simp

text \<open>
  C1. A game with slotCount 6, entryCost 25 and edgePct -20 has six slots, all owned by
  players. If the slot drawn by \<open>spinGame\<close> is occupied (then by a player), the row
  of the game after \<open>spinGame\<close> has payout 120 and houseCommission 15.
\<close>

theorem spinGame_high_tier_player_win:
  assumes st: "getGameState d gid = Some st"
    and cfg: "slotCount (game st) = 6" "entryCost (game st) = 25" "edgePct (game st) = - 20"
    and six: "length (slots st) = 6"
    and players: "list_all (\<lambda>s. ownerType s = OwnerPlayer) (slots st)"
    and win: "find (\<lambda>s. slotNumber s = drawWinningSlot rnd 6) (slots st) = Some ws"
  shows "map_option (\<lambda>s. (payout (game s), houseCommission (game s)))
           (getGameState (snd (spinGame d gid rnd now)) gid) = Some (Some 120, Some 15)"
proof -
  from win have "ws \<in> set (slots st)"
    by (auto simp: find_Some_iff)
  with players have ws: "ownerType ws = OwnerPlayer"
    by (simp add: list_all_iff)
  from players have "filter (\<lambda>s. ownerType s = OwnerPlayer) (slots st) = slots st"
    by (simp add: list_all_iff)
  with six have n: "int (length (filter (\<lambda>s. ownerType s = OwnerPlayer) (slots st))) = 6"
    by simp
  from win cfg have win': "find (\<lambda>s. slotNumber s = drawWinningSlot rnd (slotCount (game st)))
                             (slots st) = Some ws"
    by simp
  have t: "sWinnerType (settle st rnd) = Player"
    using settle_found(2) [OF win'] ws by simp
  have p: "sPayout (settle st rnd) = 120"
    using settle_found(4) [OF win'] ws cfg six by (simp add: n payout_high)
  have h: "sHouseCommission (settle st rnd) = 15"
    using settle_found(5) [OF win'] cfg six by (simp add: commission_high)
  show ?thesis
    by (simp add: spinGame_persisted [OF st] t p h)
qed

theorem spinGame_high_tier_player_win_witness:
  "getGameState dbHighFull 1
     = Some \<lparr>game = highGame, slots = map (mkSlot OwnerPlayer ''7'' 25) [1, 2, 3, 4, 5, 6],
             filledCount = 6, emptyCount = 0\<rparr>
   \<and> drawWinningSlot (1 / 2) 6 = 4
   \<and> map_option (\<lambda>s. (payout (game s), houseCommission (game s)))
        (getGameState (snd (spinGame dbHighFull 1 (1 / 2) evening)) 1) = Some (Some 120, Some 15)"
proof -
  let ?st = "\<lparr>game = highGame, slots = map (mkSlot OwnerPlayer ''7'' 25) [1, 2, 3, 4, 5, 6],
             filledCount = 6, emptyCount = 0\<rparr>"
  have st: "getGameState dbHighFull 1 = Some ?st"
    by (simp add: getGameState_def dbHighFull_def highGame_def mkSlot_def)
  have dr: "drawWinningSlot (1 / 2) 6 = 4"
    by code_simp
  have win: "find (\<lambda>s. slotNumber s = drawWinningSlot (1 / 2) 6) (slots ?st)
               = Some (mkSlot OwnerPlayer ''7'' 25 4)"
    by (simp add: dr mkSlot_def)
  have "map_option (\<lambda>s. (payout (game s), houseCommission (game s)))
        (getGameState (snd (spinGame dbHighFull 1 (1 / 2) evening)) 1) = Some (Some 120, Some 15)"
    by (rule spinGame_high_tier_player_win [OF st _ _ _ _ _ win])
       (simp_all add: highGame_def mkSlot_def)
  with st dr show ?thesis by simp
qed

text \<open>
  C7. When the slot drawn by \<open>spinGame\<close> is occupied by a bot, \<open>spinGame\<close> returns
  true, the row of the game afterwards has winnerType bot, payout 0, status completed and
  the houseCommission the source computes, \<open>Math.round(totalPot * 0.1)\<close> for the pot of
  \<open>filledCount * entryCost\<close>; for every pot from 0 below \<open>2^40\<close> that is the exact
  tenth of the pot rounded to the nearest integer (a commission that fits the \<open>int\<close>
  column comes from a pot below \<open>2^35\<close>). No row of \<open>userPoints\<close> (nor of
  \<open>gameSlots\<close>) is changed.
\<close>

theorem spinGame_bot_win:
  assumes st: "getGameState d gid = Some st"
    and win: "find (\<lambda>s. slotNumber s = drawWinningSlot rnd (slotCount (game st))) (slots st)
                = Some ws"
    and bot: "ownerType ws = OwnerBot"
  shows "fst (spinGame d gid rnd now) = True
     \<and> map_option (\<lambda>s. (winnerType (game s), payout (game s), houseCommission (game s),
                          status (game s)))
          (getGameState (snd (spinGame d gid rnd now)) gid)
         = Some (Some Bot, Some 0,
                 Some (computeHouseCommission (filledCount st) (entryCost (game st))), Completed)
     \<and> (0 \<le> filledCount st * entryCost (game st)
          \<and> filledCount st * entryCost (game st) < 2 ^ 40 \<longrightarrow>
          map_option (\<lambda>s. houseCommission (game s))
            (getGameState (snd (spinGame d gid rnd now)) gid)
           = Some (Some (specHouseCommission (filledCount st * entryCost (game st)))))
     \<and> userPoints (snd (spinGame d gid rnd now)) = userPoints d
     \<and> gameSlots (snd (spinGame d gid rnd now)) = gameSlots d"
proof -
  have t: "sWinnerType (settle st rnd) = Bot"
    using settle_found(2) [OF win] bot by simp
  have fc: "filledCount st = int (length (slots st))"
    using getGameState_slots [OF st] by simp
  have h: "sHouseCommission (settle st rnd)
             = computeHouseCommission (filledCount st) (entryCost (game st))"
    using settle_found(5) [OF win] fc by simp
  have a: "fst (spinGame d gid rnd now) = True"
    using st by (simp add: spinGame_fst)
  have b: "map_option (\<lambda>s. (winnerType (game s), payout (game s), houseCommission (game s),
                          status (game s)))
          (getGameState (snd (spinGame d gid rnd now)) gid)
         = Some (Some Bot, Some 0,
                 Some (computeHouseCommission (filledCount st) (entryCost (game st))), Completed)"
    by (simp add: spinGame_persisted [OF st] t h)
  have c: "userPoints (snd (spinGame d gid rnd now)) = userPoints d"
    using t by (intro spinGame_userPoints_unchanged [OF st]) simp
  have e: "0 \<le> filledCount st * entryCost (game st)
          \<and> filledCount st * entryCost (game st) < 2 ^ 40 \<longrightarrow>
          map_option (\<lambda>s. houseCommission (game s))
            (getGameState (snd (spinGame d gid rnd now)) gid)
           = Some (Some (specHouseCommission (filledCount st * entryCost (game st))))"
    by (simp add: spinGame_persisted [OF st] h computeHouseCommission_spec)
  from a b c e show ?thesis
    by (simp add: spinGame_gameSlots)
qed

theorem spinGame_bot_win_witness:
  "getGameState dbLowMixed 1
     = Some \<lparr>game = lowGame,
             slots = map (mkSlot OwnerPlayer ''7'' 5) [1, 2, 3]
                   @ map (mkSlot OwnerBot ''T'' 5) [4, 5, 6, 7, 8, 9, 10, 11, 12],
             filledCount = 12, emptyCount = 0\<rparr>
   \<and> drawWinningSlot (1 / 2) 12 = 7
   \<and> specHouseCommission (12 * 5) = 6
   \<and> fst (spinGame dbLowMixed 1 (1 / 2) evening) = True
   \<and> map_option (\<lambda>s. (winnerType (game s), payout (game s), houseCommission (game s),
                       status (game s)))
         (getGameState (snd (spinGame dbLowMixed 1 (1 / 2) evening)) 1)
        = Some (Some Bot, Some 0, Some 6, Completed)
   \<and> userPoints (snd (spinGame dbLowMixed 1 (1 / 2) evening)) = userPoints dbLowMixed"
proof -
  let ?st = "\<lparr>game = lowGame,
             slots = map (mkSlot OwnerPlayer ''7'' 5) [1, 2, 3]
                   @ map (mkSlot OwnerBot ''T'' 5) [4, 5, 6, 7, 8, 9, 10, 11, 12],
             filledCount = 12, emptyCount = 0\<rparr>"
  have st: "getGameState dbLowMixed 1 = Some ?st"
    by (simp add: getGameState_def dbLowMixed_def lowGame_def mkSlot_def)
  have dr: "drawWinningSlot (1 / 2) 12 = 7"
    by code_simp
  have win: "find (\<lambda>s. slotNumber s = drawWinningSlot (1 / 2) (slotCount (game ?st))) (slots ?st)
               = Some (mkSlot OwnerBot ''T'' 5 7)"
    by (simp add: dr mkSlot_def lowGame_def)
  have bot: "ownerType (mkSlot OwnerBot ''T'' 5 7) = OwnerBot"
    by (simp add: mkSlot_def)
  have ec: "entryCost lowGame = 5"
    by (simp add: lowGame_def)
  have sp: "specHouseCommission (12 * 5) = 6"
    by (simp add: specHouseCommission_div)
  from spinGame_bot_win [OF st win bot, of evening]
  have "fst (spinGame dbLowMixed 1 (1 / 2) evening) = True"
    and "map_option (\<lambda>s. (winnerType (game s), payout (game s), status (game s)))
          (getGameState (snd (spinGame dbLowMixed 1 (1 / 2) evening)) 1)
         = Some (Some Bot, Some 0, Completed)"
    and "map_option (\<lambda>s. houseCommission (game s))
            (getGameState (snd (spinGame dbLowMixed 1 (1 / 2) evening)) 1)
           = Some (Some (specHouseCommission (12 * 5)))"
    and "userPoints (snd (spinGame dbLowMixed 1 (1 / 2) evening)) = userPoints dbLowMixed"
    by (auto simp: ec)
  with st dr sp show ?thesis
    by auto
qed

text \<open>
  C8. When the slot drawn by \<open>spinGame\<close> is owned by a player whose ownerId
  \<open>parseInt\<close> turns into \<open>NaN\<close>, \<open>spinGame\<close> still returns true; the row of the game
  afterwards has status completed, the winner recorded, the house commission and
  completedAt set, and no row of \<open>userPoints\<close> is changed: nobody is credited.
\<close>

theorem spinGame_unparsable_winner:
  assumes st: "getGameState d gid = Some st"
    and win: "find (\<lambda>s. slotNumber s = drawWinningSlot rnd (slotCount (game st))) (slots st)
                = Some ws"
    and player: "ownerType ws = OwnerPlayer"
    and nan: "parseInt (ownerId ws) = None"
  shows "fst (spinGame d gid rnd now) = True
     \<and> map_option (\<lambda>s. (status (game s), winnerType (game s), winnerId (game s),
                          houseCommission (game s), completedAt (game s)))
          (getGameState (snd (spinGame d gid rnd now)) gid)
         = Some (Completed, Some Player, Some (ownerId ws),
                 Some (computeHouseCommission (filledCount st) (entryCost (game st))), Some now)
     \<and> userPoints (snd (spinGame d gid rnd now)) = userPoints d
     \<and> gameSlots (snd (spinGame d gid rnd now)) = gameSlots d"
proof -
  have t: "sWinnerType (settle st rnd) = Player"
    using settle_found(2) [OF win] player by simp
  have w: "sWinnerId (settle st rnd) = ownerId ws"
    using settle_found(3) [OF win] by simp
  have fc: "filledCount st = int (length (slots st))"
    using getGameState_slots [OF st] by simp
  have h: "sHouseCommission (settle st rnd)
             = computeHouseCommission (filledCount st) (entryCost (game st))"
    using settle_found(5) [OF win] fc by simp
  have a: "fst (spinGame d gid rnd now) = True"
    using st by (simp add: spinGame_fst)
  have b: "map_option (\<lambda>s. (status (game s), winnerType (game s), winnerId (game s),
                          houseCommission (game s), completedAt (game s)))
          (getGameState (snd (spinGame d gid rnd now)) gid)
         = Some (Completed, Some Player, Some (ownerId ws),
                 Some (computeHouseCommission (filledCount st) (entryCost (game st))), Some now)"
    by (simp add: spinGame_persisted [OF st] t w h)
  have c: "userPoints (snd (spinGame d gid rnd now)) = userPoints d"
    using w nan by (intro spinGame_userPoints_unchanged [OF st]) simp
  from a b c show ?thesis
    by (simp add: spinGame_gameSlots)
qed

theorem spinGame_unparsable_winner_witness:
  "getGameState dbBadOwner 1
     = Some \<lparr>game = highGame, slots = [mkSlot OwnerPlayer ''abc'' 25 1],
             filledCount = 1, emptyCount = 5\<rparr>
   \<and> drawWinningSlot 0 6 = 1
   \<and> parseInt ''abc'' = None
   \<and> fst (spinGame dbBadOwner 1 0 evening) = True
   \<and> map_option (\<lambda>s. (status (game s), winnerType (game s), winnerId (game s),
                       houseCommission (game s), completedAt (game s)))
         (getGameState (snd (spinGame dbBadOwner 1 0 evening)) 1)
        = Some (Completed, Some Player, Some ''abc'', Some 3, Some evening)
   \<and> userPoints (snd (spinGame dbBadOwner 1 0 evening)) = userPoints dbBadOwner"
proof -
  let ?st = "\<lparr>game = highGame, slots = [mkSlot OwnerPlayer ''abc'' 25 1],
             filledCount = 1, emptyCount = 5\<rparr>"
  have st: "getGameState dbBadOwner 1 = Some ?st"
    by (simp add: getGameState_def dbBadOwner_def highGame_def mkSlot_def)
  have dr: "drawWinningSlot 0 6 = 1"
    by code_simp
  have nan: "parseInt ''abc'' = None"
    by code_simp
  have win: "find (\<lambda>s. slotNumber s = drawWinningSlot 0 (slotCount (game ?st))) (slots ?st)
               = Some (mkSlot OwnerPlayer ''abc'' 25 1)"
    by (simp add: dr mkSlot_def highGame_def)
  have player: "ownerType (mkSlot OwnerPlayer ''abc'' 25 1) = OwnerPlayer"
    by (simp add: mkSlot_def)
  have nan': "parseInt (ownerId (mkSlot OwnerPlayer ''abc'' 25 1)) = None"
    by (simp add: mkSlot_def nan)
  have hc: "computeHouseCommission 1 25 = 3"
    by code_simp
  have fc: "entryCost highGame = 25"
    by (simp add: highGame_def)
  have oid: "ownerId (mkSlot OwnerPlayer ''abc'' 25 1) = ''abc''"
    by (simp add: mkSlot_def)
  from spinGame_unparsable_winner [OF st win player nan', of evening] st dr nan show ?thesis
    by (simp add: fc hc oid)
qed

declare findEmptySlot.simps [simp del]

lemma findEmptySlot_Some:
  "findEmptySlot occ i n = Some k \<Longrightarrow>
     i \<le> k \<and> k \<le> n \<and> k \<notin> occ \<and> (\<forall>j. i \<le> j \<and> j < k \<longrightarrow> j \<in> occ)"
proof (induction occ i n rule: findEmptySlot.induct)
  case (1 occ i n)
  show ?case
  proof (cases "i \<le> n \<and> i \<in> occ")
    case True
    with "1.prems" have "findEmptySlot occ (i + 1) n = Some k"
      by (simp add: findEmptySlot.simps [of occ i n])
    with "1.IH" True have "i + 1 \<le> k \<and> k \<le> n \<and> k \<notin> occ \<and> (\<forall>j. i + 1 \<le> j \<and> j < k \<longrightarrow> j \<in> occ)"
      by simp
    with True show ?thesis
      by (metis add1_zle_eq order_le_less less_le_trans zless_add1_eq)
  next
    case False
    with "1.prems" show ?thesis
      by (auto simp: findEmptySlot.simps [of occ i n] split: if_splits)
  qed
qed

lemma findEmptySlot_None:
  "findEmptySlot occ i n = None \<Longrightarrow> {i..n} \<subseteq> occ"
proof (induction occ i n rule: findEmptySlot.induct)
  case (1 occ i n)
  show ?case
  proof (cases "i \<le> n")
    case True
    with "1.prems" have a: "i \<in> occ" and b: "findEmptySlot occ (i + 1) n = None"
      by (auto simp: findEmptySlot.simps [of occ i n] split: if_splits)
    from "1.IH" True a b have "{i + 1..n} \<subseteq> occ" by simp
    moreover have "{i..n} = insert i {i + 1..n}" using True by auto
    ultimately show ?thesis using a by simp
  next
    case False
    then show ?thesis by simp
  qed
qed

lemma findEmptySlot_pigeonhole:
  assumes "int (length xs) < n"
  shows "findEmptySlot (set (map f xs)) 1 n \<noteq> None"
proof
  assume "findEmptySlot (set (map f xs)) 1 n = None"
  then have "{1..n} \<subseteq> set (map f xs)" by (rule findEmptySlot_None)
  then have "card {1..n} \<le> card (set (map f xs))"
    by (intro card_mono) simp_all
  also have "\<dots> \<le> length (map f xs)" by (rule card_length)
  finally show False using assms by simp
qed

lemma list_ex_slotNumber:
  "list_ex (\<lambda>s. slotNumber s = n) xs \<longleftrightarrow> n \<in> set (map slotNumber xs)"
  by (auto simp: list_ex_iff)

text \<open>
  C4. For an existing game, \<open>addBotEntry\<close> returns false and leaves the database as it
  is unless the game is filling and \<open>filledCount < slotCount\<close>. When both hold it
  returns true, and the database afterwards is the one before with a single row
  appended to \<open>gameSlots\<close>: a bot's slot for this game, at the game's entry cost, at a
  slot number \<open>n\<close> in \<open>1 .. slotCount\<close> that was free while every number from 1 below
  \<open>n\<close> was occupied. The \<open>userPoints\<close> table is not touched.
\<close>

theorem addBotEntry_fills_lowest_free_slot:
  assumes st: "getGameState d gid = Some st"
  shows "(\<not> (status (game st) = Filling \<and> filledCount st < slotCount (game st)) \<longrightarrow>
            addBotEntry d gid rnd = (False, d))
     \<and> (status (game st) = Filling \<and> filledCount st < slotCount (game st) \<longrightarrow>
          (\<exists>n. addBotEntry d gid rnd
                  = (True, d\<lparr>gameSlots := gameSlots d @
                       [\<lparr>gameId = gid, slotNumber = n, ownerType = OwnerBot,
                         ownerId = pickBotName rnd,
                         slotEntryCost = entryCost (game st)\<rparr>]\<rparr>)
             \<and> 1 \<le> n \<and> n \<le> slotCount (game st)
             \<and> \<not> list_ex (\<lambda>s. slotNumber s = n) (slots st)
             \<and> (\<forall>m. 1 \<le> m \<and> m < n \<longrightarrow> list_ex (\<lambda>s. slotNumber s = m) (slots st))))"
proof (intro conjI impI)
  assume "\<not> (status (game st) = Filling \<and> filledCount st < slotCount (game st))"
  with st show "addBotEntry d gid rnd = (False, d)"
    by (auto simp: addBotEntry_def)
next
  assume pre: "status (game st) = Filling \<and> filledCount st < slotCount (game st)"
  have fc: "filledCount st = int (length (slots st))"
    using getGameState_slots [OF st] by simp
  with pre have "findEmptySlot (set (map slotNumber (slots st))) 1 (slotCount (game st)) \<noteq> None"
    by (intro findEmptySlot_pigeonhole) simp
  then obtain n where n: "findEmptySlot (set (map slotNumber (slots st))) 1 (slotCount (game st))
                            = Some n"
    by blast
  from findEmptySlot_Some [OF n]
  have rng: "1 \<le> n \<and> n \<le> slotCount (game st)
             \<and> \<not> list_ex (\<lambda>s. slotNumber s = n) (slots st)
             \<and> (\<forall>m. 1 \<le> m \<and> m < n \<longrightarrow> list_ex (\<lambda>s. slotNumber s = m) (slots st))"
    by (simp only: list_ex_slotNumber) blast
  from st pre n have "addBotEntry d gid rnd
                  = (True, d\<lparr>gameSlots := gameSlots d @
                       [\<lparr>gameId = gid, slotNumber = n, ownerType = OwnerBot,
                         ownerId = pickBotName rnd,
                         slotEntryCost = entryCost (game st)\<rparr>]\<rparr>)"
    by (simp add: addBotEntry_def Let_def)
  with rng show "\<exists>n. addBotEntry d gid rnd
                  = (True, d\<lparr>gameSlots := gameSlots d @
                       [\<lparr>gameId = gid, slotNumber = n, ownerType = OwnerBot,
                         ownerId = pickBotName rnd,
                         slotEntryCost = entryCost (game st)\<rparr>]\<rparr>)
             \<and> 1 \<le> n \<and> n \<le> slotCount (game st)
             \<and> \<not> list_ex (\<lambda>s. slotNumber s = n) (slots st)
             \<and> (\<forall>m. 1 \<le> m \<and> m < n \<longrightarrow> list_ex (\<lambda>s. slotNumber s = m) (slots st))"
    by blast
qed

theorem addBotEntry_fills_lowest_free_slot_witness:
  "getGameState dbHighFull 1
     = Some \<lparr>game = highGame, slots = map (mkSlot OwnerPlayer ''7'' 25) [1, 2, 3, 4, 5, 6],
             filledCount = 6, emptyCount = 0\<rparr>
   \<and> addBotEntry dbHighFull 1 (1 / 2) = (False, dbHighFull)
   \<and> getGameState dbGap 1
     = Some \<lparr>game = highGame, slots = gameSlots dbGap, filledCount = 3, emptyCount = 3\<rparr>
   \<and> status highGame = Filling
   \<and> addBotEntry dbGap 1 (1 / 2)
       = (True, dbGap\<lparr>gameSlots := gameSlots dbGap @ [mkSlot OwnerBot ''S'' 25 3]\<rparr>)"
proof -
  let ?full = "\<lparr>game = highGame, slots = map (mkSlot OwnerPlayer ''7'' 25) [1, 2, 3, 4, 5, 6],
             filledCount = 6, emptyCount = 0\<rparr>"
  let ?gap = "\<lparr>game = highGame, slots = gameSlots dbGap, filledCount = 3, emptyCount = 3\<rparr>"
  have hg: "status highGame = Filling" "slotCount highGame = 6" "entryCost highGame = 25"
    by (simp_all add: highGame_def)
  have s1: "getGameState dbHighFull 1 = Some ?full"
    by (simp add: getGameState_def dbHighFull_def highGame_def mkSlot_def)
  have s2: "getGameState dbGap 1 = Some ?gap"
    by (simp add: getGameState_def dbGap_def highGame_def mkSlot_def)
  have a: "addBotEntry dbHighFull 1 (1 / 2) = (False, dbHighFull)"
    using addBotEntry_fills_lowest_free_slot [OF s1, of "1 / 2"] by (simp add: hg)
  from addBotEntry_fills_lowest_free_slot [OF s2, of "1 / 2"]
  obtain n where n: "addBotEntry dbGap 1 (1 / 2)
                  = (True, dbGap\<lparr>gameSlots := gameSlots dbGap @
                       [\<lparr>gameId = 1, slotNumber = n, ownerType = OwnerBot,
                         ownerId = pickBotName (1 / 2), slotEntryCost = 25\<rparr>]\<rparr>)"
    and free: "\<not> list_ex (\<lambda>s. slotNumber s = n) (gameSlots dbGap)"
    and low: "\<forall>m. 1 \<le> m \<and> m < n \<longrightarrow> list_ex (\<lambda>s. slotNumber s = m) (gameSlots dbGap)"
    and rng: "1 \<le> n"
    by (auto simp: hg)
  have occ: "list_ex (\<lambda>s. slotNumber s = m) (gameSlots dbGap) \<longleftrightarrow> m = 1 \<or> m = 2 \<or> m = 4" for m
    by (auto simp: dbGap_def mkSlot_def)
  from low [rule_format, of 3] occ [of 3] have "\<not> 3 < n"
    by auto
  with free rng occ [of n] have "n = 3"
    by auto
  moreover have "pickBotName (1 / 2) = ''S''"
    by code_simp
  ultimately show ?thesis
    using n s1 s2 a hg by (simp add: mkSlot_def)
qed

text \<open>
  C3. \<open>buySpot\<close> fails with GameNotFound when the game id is unknown, with SlotTaken
  when the game has a slot at that number, and with InsufficientFunds when the slot is
  free and the balance read from the ledger is below the entry cost. In the first two
  cases the database is left as it is. In the third no game and no slot changes, the
  rows of the other users are the same, and the ledger gives the same record for the
  user as before (balance, totalEarned and totalWagered included); if the user had a
  row, the whole database is left as it is, and otherwise the only change is the default
  row that reading the balance creates.
\<close>

theorem buySpot_failures_leave_state:
  "(getGameState d gid = None \<longrightarrow> buySpot d uid gid sn rnd now = (Inl GameNotFound, d))
   \<and> (\<forall>st. getGameState d gid = Some st \<and> list_ex (\<lambda>s. slotNumber s = sn) (slots st) \<longrightarrow>
         buySpot d uid gid sn rnd now = (Inl SlotTaken, d))
   \<and> (\<forall>st. getGameState d gid = Some st \<and> \<not> list_ex (\<lambda>s. slotNumber s = sn) (slots st)
           \<and> balance (fst (getUserPoints d uid)) < entryCost (game st) \<longrightarrow>
         fst (buySpot d uid gid sn rnd now) = Inl InsufficientFunds
         \<and> games (snd (buySpot d uid gid sn rnd now)) = games d
         \<and> gameSlots (snd (buySpot d uid gid sn rnd now)) = gameSlots d
         \<and> fst (getUserPoints (snd (buySpot d uid gid sn rnd now)) uid)
             = fst (getUserPoints d uid)
         \<and> filter (\<lambda>p. userId p \<noteq> uid) (userPoints (snd (buySpot d uid gid sn rnd now)))
             = filter (\<lambda>p. userId p \<noteq> uid) (userPoints d)
         \<and> (selectUserPoints d uid \<noteq> None \<longrightarrow> snd (buySpot d uid gid sn rnd now) = d))"
proof (intro conjI allI impI)
  assume "getGameState d gid = None"
  then show "buySpot d uid gid sn rnd now = (Inl GameNotFound, d)"
    by (simp add: buySpot_def)
next
  fix st
  assume "getGameState d gid = Some st \<and> list_ex (\<lambda>s. slotNumber s = sn) (slots st)"
  then show "buySpot d uid gid sn rnd now = (Inl SlotTaken, d)"
    by (simp add: buySpot_def)
next
  fix st
  assume h: "getGameState d gid = Some st \<and> \<not> list_ex (\<lambda>s. slotNumber s = sn) (slots st)
           \<and> balance (fst (getUserPoints d uid)) < entryCost (game st)"
  then have b: "buySpot d uid gid sn rnd now = (Inl InsufficientFunds, snd (getUserPoints d uid))"
    by (cases "getUserPoints d uid") (simp add: buySpot_def)
  show "fst (buySpot d uid gid sn rnd now) = Inl InsufficientFunds"
    by (simp add: b)
  show "games (snd (buySpot d uid gid sn rnd now)) = games d"
    by (simp add: b getUserPoints_def getOrCreateUserPoints_frame)
  show "gameSlots (snd (buySpot d uid gid sn rnd now)) = gameSlots d"
    by (simp add: b getUserPoints_def getOrCreateUserPoints_frame)
  show "fst (getUserPoints (snd (buySpot d uid gid sn rnd now)) uid) = fst (getUserPoints d uid)"
    using selectUserPoints_getOrCreate [of d uid]
    by (simp add: b getUserPoints_def getOrCreateUserPoints_existing)
  show "filter (\<lambda>p. userId p \<noteq> uid) (userPoints (snd (buySpot d uid gid sn rnd now)))
             = filter (\<lambda>p. userId p \<noteq> uid) (userPoints d)"
    by (simp add: b getUserPoints_def getOrCreateUserPoints_def newUserPoints_def
          split: option.splits)
  assume "selectUserPoints d uid \<noteq> None"
  then show "snd (buySpot d uid gid sn rnd now) = d"
    by (auto simp: b getUserPoints_def getOrCreateUserPoints_existing)
qed

theorem buySpot_failures_leave_state_witness:
  "getGameState emptyDb 1 = None
   \<and> buySpot emptyDb 9 1 2 0 morning = (Inl GameNotFound, emptyDb)
   \<and> getGameState dbPoor 1
       = Some \<lparr>game = highGame, slots = [mkSlot OwnerBot ''K'' 25 1], filledCount = 1,
               emptyCount = 5\<rparr>
   \<and> buySpot dbPoor 9 1 1 0 morning = (Inl SlotTaken, dbPoor)
   \<and> getUserPoints dbPoor 9 = (bob, dbPoor)
   \<and> balance bob < entryCost highGame
   \<and> buySpot dbPoor 9 1 2 0 morning = (Inl InsufficientFunds, dbPoor)"
proof -
  let ?st = "\<lparr>game = highGame, slots = [mkSlot OwnerBot ''K'' 25 1], filledCount = 1,
               emptyCount = 5\<rparr>"
  have s0: "getGameState emptyDb 1 = None"
    by (simp add: getGameState_def emptyDb_def)
  have s1: "getGameState dbPoor 1 = Some ?st"
    by (simp add: getGameState_def dbPoor_def highGame_def mkSlot_def)
  have u: "selectUserPoints dbPoor 9 = Some bob"
    by (simp add: selectUserPoints_def dbPoor_def bob_def)
  then have g: "getUserPoints dbPoor 9 = (bob, dbPoor)"
    by (simp add: getUserPoints_def getOrCreateUserPoints_def)
  have lt: "balance bob < entryCost highGame"
    by (simp add: bob_def highGame_def)
  have t1: "list_ex (\<lambda>s. slotNumber s = 1) (slots ?st)"
    by (simp add: mkSlot_def)
  have t2: "\<not> list_ex (\<lambda>s. slotNumber s = 2) (slots ?st)"
    by (simp add: mkSlot_def)
  note th = buySpot_failures_leave_state
  have a: "buySpot emptyDb 9 1 2 0 morning = (Inl GameNotFound, emptyDb)"
    using th [of emptyDb 1 9 2 0 morning] s0 by blast
  have b: "buySpot dbPoor 9 1 1 0 morning = (Inl SlotTaken, dbPoor)"
    using th [of dbPoor 1 9 1 0 morning] s1 t1 by blast
  have c: "fst (buySpot dbPoor 9 1 2 0 morning) = Inl InsufficientFunds
           \<and> snd (buySpot dbPoor 9 1 2 0 morning) = dbPoor"
    using th [of dbPoor 1 9 2 0 morning] s1 t2 g lt u by simp
  then have "buySpot dbPoor 9 1 2 0 morning = (Inl InsufficientFunds, dbPoor)"
    by (simp add: prod_eq_iff)
  with s0 s1 a b g lt show ?thesis by blast
qed

section \<open>Sequences of operations keep one active game per tier\<close>



lemma oneActivePerTier_emptyDb: "oneActivePerTier emptyDb"
  by (simp add: oneActivePerTier_def activeGames_def emptyDb_def)












lemma getOrCreateActiveGame_split:
  "getOrCreateActiveGame d t = resumeGetOrCreateActiveGame d t (selectActiveGame d t)"
  by (simp add: getOrCreateActiveGame_def resumeGetOrCreateActiveGame_def selectActiveGame_def)


text \<open>
  C2 does not hold of the source: \<open>spinGame\<close> does not look at the status. On the
  completed game of \<open>dbSettled\<close>, which is what \<open>spinGame\<close> made of \<open>dbHighFull\<close>,
  a second call returns true, draws again (slot 4 instead of slot 1), overwrites
  winningSlot and completedAt, and credits the payout of 120 a second time.
\<close>

theorem spinGame_completed_game_settles_again:
  "spinGame dbHighFull 1 0 morning = (True, dbSettled)
   \<and> spinGame dbSettled 1 (1 / 2) evening
       = (True, dbSettled\<lparr>
            games := [highGame\<lparr>winningSlot := Some 4, winnerType := Some Player,
              winnerId := Some ''7'', payout := Some 120, houseCommission := Some 15,
              status := Completed, completedAt := Some evening\<rparr>],
            userPoints := [\<lparr>userId = 7, balance = 30090, totalEarned = 30240,
              totalWagered = 150, lastDailyReward = None\<rparr>]\<rparr>)"
  by code_simp

text \<open>
  C5 does not hold of the source: \<open>buySpot\<close> stores the slot number it is given. In the
  six-slot game that \<open>getOrCreateActiveGame\<close> creates for the high tier, user 7 buys
  slot number 7: the purchase succeeds, the user is debited 25 and a slot with number 7
  is inserted. (\<open>addBotEntry\<close> keeps to \<open>1 .. slotCount\<close>, as shown for C4.)
\<close>

theorem buySpot_slot_number_out_of_range:
  "getOrCreateActiveGame emptyDb High = (1, emptyDb\<lparr>games := [highGame], gamesAutoInc := 2\<rparr>)
   \<and> slotCount highGame = 6
   \<and> buySpot (emptyDb\<lparr>games := [highGame], gamesAutoInc := 2\<rparr>) 7 1 7 0 morning
       = (Inr 29975,
          \<lparr>games = [highGame],
           gameSlots = [\<lparr>gameId = 1, slotNumber = 7, ownerType = OwnerPlayer, ownerId = ''7'',
                         slotEntryCost = 25\<rparr>],
           userPoints = [\<lparr>userId = 7, balance = 29975, totalEarned = 30000,
                          totalWagered = 25, lastDailyReward = None\<rparr>],
           gamesAutoInc = 2\<rparr>)"
  by code_simp


end
